theory Spec2Isabelle
  imports Complex_Main
begin

section \<open>The \<open>user_ratings\<close> table\<close>

text \<open>
  The rating observations of the recommender live in the SQLite table \<open>user_ratings\<close>
  that \<open>create_user_tables\<close> (generate_user_data.py) declares:
  \<^verbatim>\<open>
  CREATE TABLE IF NOT EXISTS user_ratings (
      rating_id INTEGER PRIMARY KEY AUTOINCREMENT,
      user_id INTEGER,
      product_id INTEGER,
      rating REAL NOT NULL,
      review_text TEXT,
      helpful_votes INTEGER DEFAULT 0,
      rating_date DATE,
      created_at TIMESTAMP DEFAULT CURRENT_TIMESTAMP,
      FOREIGN KEY (user_id) REFERENCES users (user_id),
      FOREIGN KEY (product_id) REFERENCES products (id),
      UNIQUE(user_id, product_id)
  )
  \<close>
  A row is a record of the six columns that the statements of the source supply or
  read; \<open>rating_id\<close> and \<open>created_at\<close> are filled in by the engine and no statement
  of the source mentions them. A column that may hold NULL is an \<open>option\<close>, with
  \<open>None\<close> for NULL. A table is the list of its rows in insertion order.
\<close>

record rating_row =
  user_id :: "int option"
  product_id :: "int option"
  rating :: "real option"
  review_text :: "string option"
  helpful_votes :: "int option"
  rating_date :: "string option"

section \<open>Loading the observations (train_recommender.py)\<close>

text \<open>
  \<^verbatim>\<open>
  def load_ratings(db_path):
      conn = sqlite3.connect(db_path)
      query = '''
          SELECT user_id, product_id, rating
          FROM user_ratings
          WHERE rating IS NOT NULL
      '''
      df = pd.read_sql_query(query, conn)
      conn.close()
      return df
  \<close>
  The data frame is the list of its rows, each a triple of the three selected
  columns. The database file is read into the table that is the argument.
\<close>

type_synonym observation = "int option \<times> int option \<times> real option"

definition load_ratings :: "rating_row list \<Rightarrow> observation list" where
  "load_ratings user_ratings =
     map (\<lambda>r. (user_id r, product_id r, rating r))
       (filter (\<lambda>r. rating r \<noteq> None) user_ratings)"

section \<open>Writing the observations (generate_user_data.py)\<close>

subsection \<open>Inserting into \<open>user_ratings\<close>\<close>

text \<open>
  SQLite checks two constraints of the table when a row is inserted: \<open>rating\<close> is
  \<open>NOT NULL\<close>, and \<open>UNIQUE(user_id, product_id)\<close>. For a UNIQUE constraint a NULL is
  distinct from every value, another NULL included, so two rows collide only when both
  columns of the pair are not NULL and equal. The FOREIGN KEY clauses are not enforced:
  the source never turns \<open>PRAGMA foreign_keys\<close> on. The table has no CHECK constraint,
  so the value of a rating is not looked at.

  What a violated constraint does is the statement's conflict clause. The source
  writes \<open>INSERT OR IGNORE INTO user_ratings\<close> (the row is skipped and the statement
  goes on) for this table, and a plain \<open>INSERT\<close>, which aborts with
  \<open>sqlite3.IntegrityError\<close>, for the other tables.
\<close>

datatype conflict_clause = OrAbort | OrIgnore

datatype py_error = IntegrityError | IndexError

definition same_pair :: "rating_row \<Rightarrow> rating_row \<Rightarrow> bool" where
  "same_pair a b =
     (user_id a \<noteq> None \<and> product_id a \<noteq> None \<and>
      user_id a = user_id b \<and> product_id a = product_id b)"

definition constraint_violated :: "rating_row \<Rightarrow> rating_row list \<Rightarrow> bool" where
  "constraint_violated row tbl = (rating row = None \<or> list_ex (same_pair row) tbl)"

definition insert_rating ::
  "conflict_clause \<Rightarrow> rating_row \<Rightarrow> rating_row list \<Rightarrow> py_error + rating_row list" where
  "insert_rating cc row tbl =
     (if constraint_violated row tbl
      then (case cc of OrIgnore \<Rightarrow> Inr tbl | OrAbort \<Rightarrow> Inl IntegrityError)
      else Inr (tbl @ [row]))"

text \<open>\<open>cursor.executemany\<close> runs the statement once per tuple, in order.\<close>

fun executemany ::
  "conflict_clause \<Rightarrow> rating_row list \<Rightarrow> rating_row list \<Rightarrow> py_error + rating_row list" where
  "executemany cc [] tbl = Inr tbl"
| "executemany cc (row # rows) tbl =
     (case insert_rating cc row tbl of
        Inl e \<Rightarrow> Inl e
      | Inr tbl' \<Rightarrow> executemany cc rows tbl')"

text \<open>At most one row per pair of identifiers: no row collides with a later one.\<close>

fun unique_pairs :: "rating_row list \<Rightarrow> bool" where
  "unique_pairs [] = True"
| "unique_pairs (r # rs) = (\<not> list_ex (same_pair r) rs \<and> unique_pairs rs)"

definition in_scale :: "rating_row \<Rightarrow> bool" where
  "in_scale r = (case rating r of None \<Rightarrow> False | Some x \<Rightarrow> 1 \<le> x \<and> x \<le> 5)"

subsection \<open>Python's arithmetic builtins\<close>

text \<open>
  A float is modelled as the real number it denotes. \<open>min(a, b)\<close> and \<open>max(a, b)\<close>
  return the first argument unless the second is strictly smaller (larger);
  \<open>round(x, 1)\<close> rounds to one decimal, a tie going to the even digit; \<open>int(x)\<close>
  truncates towards zero.
\<close>

definition py_min :: "real \<Rightarrow> real \<Rightarrow> real" where
  "py_min a b = (if b < a then b else a)"

definition py_max :: "real \<Rightarrow> real \<Rightarrow> real" where
  "py_max a b = (if a < b then b else a)"

definition round_half_even :: "real \<Rightarrow> int" where
  "round_half_even x =
     (let f = \<lfloor>x\<rfloor>; d = x - of_int f
      in if d < 1 / 2 then f else if 1 / 2 < d then f + 1
         else if even f then f else f + 1)"

definition py_round1 :: "real \<Rightarrow> real" where
  "py_round1 x = of_int (round_half_even (x * 10)) / 10"

definition py_int :: "real \<Rightarrow> int" where
  "py_int x = (if 0 \<le> x then \<lfloor>x\<rfloor> else \<lceil>x\<rceil>)"

text \<open>\<open>s.split(',')\<close>: the pieces between the separators, empty pieces kept.\<close>

fun split_on :: "char \<Rightarrow> string \<Rightarrow> string list" where
  "split_on c [] = [[]]"
| "split_on c (x # xs) =
     (if x = c then [] # split_on c xs
      else (case split_on c xs of
              [] \<Rightarrow> [[x]]
            | w # ws \<Rightarrow> (x # w) # ws))"

text \<open>
  \<open>random.choice(seq)\<close> raises IndexError on an empty sequence and otherwise returns
  the element at a random index below the length; the random number is the argument
  \<open>k\<close>, reduced to an index.
\<close>

definition choice :: "'a list \<Rightarrow> nat \<Rightarrow> py_error + 'a" where
  "choice xs k = (if xs = [] then Inl IndexError else Inr (xs ! (k mod length xs)))"

subsection \<open>\<open>generate_ratings\<close>\<close>

text \<open>
  \<^verbatim>\<open>
  cursor.execute("SELECT user_id, preferred_categories FROM users")
  users = cursor.fetchall()
  products = self.get_product_sample(limit=products_sample_size)
  ratings_data = []
  for i in range(num_ratings):
      user = random.choice(users)
      product = random.choice(products)
      user_id = user[0]
      preferred_categories = user[1].split(',') if user[1] else []
      if product[3] in preferred_categories:
          rating = np.random.beta(4, 1.5) * 5
      else:
          rating = np.random.beta(2, 2) * 5
      rating = max(1, min(5, round(rating, 1)))  # Entre 1 e 5
      review_text = None
      if random.random() < 0.3:
          review_text = fake.text(max_nb_chars=500)
      rating_date = fake.date_between(start_date='-2y', end_date='today')
      helpful_votes = max(0, int(np.random.exponential(2)))
      ratings_data.append((user_id, product[0], rating, review_text,
                           helpful_votes, rating_date))
  # Inserir avaliacoes (ignorar duplicados)
  cursor.executemany(
      "INSERT OR IGNORE INTO user_ratings (user_id, product_id, rating,
           review_text, helpful_votes, rating_date) VALUES (?, ?, ?, ?, ?, ?)",
      ratings_data)
  \<close>
  The two query results are arguments. Every random number that one iteration draws
  is a field of a \<open>rating_draw\<close>; the list of draws has one entry per iteration, so
  its length is \<open>num_ratings\<close>.
\<close>

record user_entry =
  u_user_id :: int
  u_preferred_categories :: "string option"

record product_entry =
  p_id :: int
  p_asin :: string
  p_title :: string
  p_category_name :: "string option"
  p_price :: "real option"
  p_stars :: "real option"

record rating_draw =
  user_pick :: nat
  product_pick :: nat
  beta_preferred :: real
  beta_other :: real
  review_coin :: real
  review_body :: string
  date_drawn :: string
  votes_drawn :: real

definition preferred_categories :: "user_entry \<Rightarrow> string list" where
  "preferred_categories user =
     (case u_preferred_categories user of
        None \<Rightarrow> []
      | Some s \<Rightarrow> if s = [] then [] else split_on (CHR '','') s)"

definition category_preferred :: "product_entry \<Rightarrow> string list \<Rightarrow> bool" where
  "category_preferred product preferred =
     (case p_category_name product of
        None \<Rightarrow> False
      | Some c \<Rightarrow> List.member preferred c)"

definition rating_tuple :: "user_entry \<Rightarrow> product_entry \<Rightarrow> rating_draw \<Rightarrow> rating_row" where
  "rating_tuple user product d =
     (let preferred = preferred_categories user;
          raw = (if category_preferred product preferred
                 then beta_preferred d * 5 else beta_other d * 5);
          clamped = py_max 1 (py_min 5 (py_round1 raw));
          review = (if review_coin d < 3 / 10 then Some (review_body d) else None);
          votes = max 0 (py_int (votes_drawn d))
      in \<lparr>user_id = Some (u_user_id user), product_id = Some (p_id product),
          rating = Some clamped, review_text = review,
          helpful_votes = Some votes, rating_date = Some (date_drawn d)\<rparr>)"

fun ratings_data ::
  "user_entry list \<Rightarrow> product_entry list \<Rightarrow> rating_draw list \<Rightarrow> py_error + rating_row list" where
  "ratings_data users products [] = Inr []"
| "ratings_data users products (d # ds) =
     (case choice users (user_pick d) of
        Inl e \<Rightarrow> Inl e
      | Inr user \<Rightarrow>
         (case choice products (product_pick d) of
            Inl e \<Rightarrow> Inl e
          | Inr product \<Rightarrow>
             (case ratings_data users products ds of
                Inl e \<Rightarrow> Inl e
              | Inr rows \<Rightarrow> Inr (rating_tuple user product d # rows))))"

definition generate_ratings ::
  "user_entry list \<Rightarrow> product_entry list \<Rightarrow> rating_draw list \<Rightarrow> rating_row list
     \<Rightarrow> py_error + rating_row list" where
  "generate_ratings users products draws tbl =
     (case ratings_data users products draws of
        Inl e \<Rightarrow> Inl e
      | Inr rows \<Rightarrow> executemany OrIgnore rows tbl)"

subsection \<open>A run of \<open>generate_ratings\<close>\<close>

text \<open>
  One user who prefers Books and Toys, one product of category Books, and a draw
  whose beta sample 0.1 gives the raw rating 0.5, below the scale.
\<close>

definition users0 :: "user_entry list" where
  "users0 = [\<lparr>u_user_id = 7, u_preferred_categories = Some ''Books,Toys''\<rparr>]"

definition products0 :: "product_entry list" where
  "products0 =
     [\<lparr>p_id = 3, p_asin = ''B01'', p_title = ''Atlas'', p_category_name = Some ''Books'',
       p_price = Some 12, p_stars = None\<rparr>]"

definition draw0 :: rating_draw where
  "draw0 =
     \<lparr>user_pick = 4, product_pick = 9, beta_preferred = 1 / 10, beta_other = 1 / 2,
      review_coin = 4 / 5, review_body = ''fine'', date_drawn = ''2024-03-09'',
      votes_drawn = 5 / 2\<rparr>"

definition row0 :: rating_row where
  "row0 =
     \<lparr>user_id = Some 7, product_id = Some 3, rating = Some 1, review_text = None,
      helpful_votes = Some 2, rating_date = Some ''2024-03-09''\<rparr>"

subsection \<open>A table to load from\<close>

text \<open>
  Two rows, the first with a NULL rating, as a table that was created without the
  NOT NULL constraint may hold.
\<close>

definition ratings0 :: "rating_row list" where
  "ratings0 =
     [\<lparr>user_id = Some 1, product_id = Some 10, rating = None, review_text = None,
       helpful_votes = Some 0, rating_date = None\<rparr>,
      \<lparr>user_id = Some 2, product_id = Some 10, rating = Some (9 / 2), review_text = None,
       helpful_votes = Some 3, rating_date = Some ''2024-05-01''\<rparr>]"

section \<open>Properties of the loading step\<close>

text \<open>
  C10. Every observation that \<open>load_ratings\<close> returns has a rating that is not NULL,
  and it is the projection of a row of \<open>user_ratings\<close> whose rating is not NULL. The
  main block passes this data frame unchanged to \<open>train_recommender\<close>, so no
  observation that reaches the split or the training has a missing rating.
\<close>

theorem load_ratings_rating_not_null:
  "\<forall>obs \<in> set (load_ratings tbl).
     snd (snd obs) \<noteq> None \<and>
     (\<exists>row \<in> set tbl. rating row \<noteq> None \<and>
        obs = (user_id row, product_id row, rating row))"
  by (auto simp: load_ratings_def)

text \<open>
  Of the two rows of \<open>ratings0\<close> only the second is loaded; the theorem at this
  observation.
\<close>

theorem load_ratings_rating_not_null_witness:
  "(Some 2, Some 10, Some (9 / 2)) \<in> set (load_ratings ratings0) \<and>
   snd (snd (Some 2 :: int option, Some 10 :: int option, Some (9 / 2 :: real))) \<noteq> None \<and>
   (\<exists>row \<in> set ratings0. rating row \<noteq> None \<and>
      (Some 2, Some 10, Some (9 / 2)) = (user_id row, product_id row, rating row))"
proof -
  have loaded: "(Some 2, Some 10, Some (9 / 2)) \<in> set (load_ratings ratings0)"
    by (simp add: load_ratings_def ratings0_def del: not_None_eq)
  from bspec [OF load_ratings_rating_not_null loaded] loaded
  show ?thesis by (rule conjI [rotated])
qed

section \<open>Properties of the insertion\<close>

subsection \<open>Uniqueness of the pairs\<close>

lemma same_pair_sym: "same_pair a b \<Longrightarrow> same_pair b a"
  by (auto simp: same_pair_def)

lemma list_ex_same_pair_append:
  "list_ex (same_pair r) (rs @ [row]) = (list_ex (same_pair r) rs \<or> same_pair r row)"
  by (auto simp: list_ex_iff)

lemma unique_pairs_snoc:
  "unique_pairs (tbl @ [row]) = (unique_pairs tbl \<and> \<not> list_ex (same_pair row) tbl)"
proof (induction tbl)
  case Nil
  show ?case by simp
next
  case (Cons r rs)
  have "same_pair r row \<longleftrightarrow> same_pair row r"
    using same_pair_sym by blast
  with Cons show ?case
    by (auto simp: list_ex_same_pair_append)
qed

text \<open>
  The recursive check says what it should: no two rows at different positions have the
  same pair of identifiers.
\<close>

lemma unique_pairs_iff:
  "unique_pairs tbl \<longleftrightarrow>
     (\<forall>i j. i < j \<and> j < length tbl \<longrightarrow> \<not> same_pair (tbl ! i) (tbl ! j))"
proof (induction tbl)
  case Nil
  show ?case by simp
next
  case (Cons r rs)
  have head: "list_ex (same_pair r) rs \<longleftrightarrow> (\<exists>j < length rs. same_pair r (rs ! j))"
    by (simp add: list_ex_length)
  show ?case
  proof
    assume u: "unique_pairs (r # rs)"
    show "\<forall>i j. i < j \<and> j < length (r # rs) \<longrightarrow> \<not> same_pair ((r # rs) ! i) ((r # rs) ! j)"
    proof (intro allI impI)
      fix i j
      assume ij: "i < j \<and> j < length (r # rs)"
      then obtain j' where j': "j = Suc j'" "j' < length rs"
        by (cases j) auto
      show "\<not> same_pair ((r # rs) ! i) ((r # rs) ! j)"
      proof (cases i)
        case 0
        with u head j' show ?thesis by auto
      next
        case (Suc i')
        with ij j' have "i' < j' \<and> j' < length rs" by simp
        with u Cons.IH have "\<not> same_pair (rs ! i') (rs ! j')" by simp
        with Suc j' show ?thesis by simp
      qed
    qed
  next
    assume a: "\<forall>i j. i < j \<and> j < length (r # rs) \<longrightarrow> \<not> same_pair ((r # rs) ! i) ((r # rs) ! j)"
    have "\<not> list_ex (same_pair r) rs"
    proof
      assume "list_ex (same_pair r) rs"
      with head obtain j where j: "j < length rs" "same_pair r (rs ! j)" by blast
      from a have "0 < Suc j \<and> Suc j < length (r # rs) \<longrightarrow>
          \<not> same_pair ((r # rs) ! 0) ((r # rs) ! Suc j)"
        by blast
      with j show False by simp
    qed
    moreover have "unique_pairs rs"
    proof -
      have "\<forall>i j. i < j \<and> j < length rs \<longrightarrow> \<not> same_pair (rs ! i) (rs ! j)"
      proof (intro allI impI)
        fix i j
        assume ij: "i < j \<and> j < length rs"
        from a have "Suc i < Suc j \<and> Suc j < length (r # rs) \<longrightarrow>
            \<not> same_pair ((r # rs) ! Suc i) ((r # rs) ! Suc j)"
          by blast
        with ij show "\<not> same_pair (rs ! i) (rs ! j)" by simp
      qed
      with Cons.IH show ?thesis by simp
    qed
    ultimately show "unique_pairs (r # rs)" by simp
  qed
qed

subsection \<open>One statement, then many\<close>

lemma insert_rating_ignore:
  "insert_rating OrIgnore row tbl =
     Inr (if constraint_violated row tbl then tbl else tbl @ [row])"
  by (simp add: insert_rating_def)

lemma insert_rating_ignore_unique:
  assumes "unique_pairs tbl"
  shows "unique_pairs (if constraint_violated row tbl then tbl else tbl @ [row])"
  using assms by (simp add: unique_pairs_snoc constraint_violated_def)

lemma executemany_ignore_Cons:
  "executemany OrIgnore (row # rows) tbl =
     executemany OrIgnore rows (if constraint_violated row tbl then tbl else tbl @ [row])"
  by (simp add: insert_rating_ignore)

lemma executemany_ignore:
  assumes "unique_pairs tbl"
  shows "\<exists>tbl'. executemany OrIgnore rows tbl = Inr tbl' \<and> unique_pairs tbl' \<and>
           take (length tbl) tbl' = tbl \<and> set tbl' \<subseteq> set tbl \<union> set rows"
  using assms
proof (induction rows arbitrary: tbl)
  case Nil
  then show ?case by simp
next
  case (Cons row rows)
  let ?mid = "if constraint_violated row tbl then tbl else tbl @ [row]"
  have "unique_pairs ?mid"
    by (rule insert_rating_ignore_unique [OF Cons.prems])
  from Cons.IH [OF this] obtain tbl' where
    run: "executemany OrIgnore rows ?mid = Inr tbl'" and
    uniq: "unique_pairs tbl'" and
    keep: "take (length ?mid) tbl' = ?mid" and
    sub: "set tbl' \<subseteq> set ?mid \<union> set rows"
    by blast
  have "take (length tbl) (take (length ?mid) tbl') = take (length tbl) ?mid"
    by (simp only: keep)
  then have keep': "take (length tbl) tbl' = tbl"
    by (simp split: if_splits)
  have "set ?mid \<subseteq> set tbl \<union> {row}"
    by auto
  with sub have sub': "set tbl' \<subseteq> set tbl \<union> set (row # rows)"
    by auto
  have "executemany OrIgnore (row # rows) tbl = Inr tbl'"
    by (simp only: executemany_ignore_Cons run)
  with uniq keep' sub' show ?case
    by blast
qed

subsection \<open>The rows that \<open>generate_ratings\<close> builds\<close>

lemma clamp_in_scale: "1 \<le> py_max 1 (py_min 5 x) \<and> py_max 1 (py_min 5 x) \<le> 5"
  by (simp add: py_max_def py_min_def)

lemma rating_tuple_in_scale: "in_scale (rating_tuple user product d)"
  using clamp_in_scale by (simp add: in_scale_def rating_tuple_def Let_def)

lemma ratings_data_in_scale:
  assumes "users \<noteq> []" and "products \<noteq> []"
  shows "\<exists>rows. ratings_data users products draws = Inr rows \<and>
           length rows = length draws \<and> (\<forall>r \<in> set rows. in_scale r)"
proof (induction draws)
  case Nil
  show ?case by simp
next
  case (Cons d ds)
  then obtain rows where
    r: "ratings_data users products ds = Inr rows" "length rows = length ds"
       "\<forall>r \<in> set rows. in_scale r"
    by blast
  with assms show ?case
    by (simp add: choice_def rating_tuple_in_scale)
qed

text \<open>
  C8, as the code has it. A run of \<open>generate_ratings\<close> over a table with at most one
  row per pair, with some user and some product to choose from, never fails: it
  returns a table that still has at most one row per pair, that keeps every row it had
  at its place, and whose other rows have a rating within the scale from 1 to 5. A
  raw rating outside the scale is clamped into it before the insertion, and a row
  whose pair is already present is skipped without an error.
\<close>

theorem generate_ratings_unique_pairs:
  assumes "unique_pairs tbl" and "users \<noteq> []" and "products \<noteq> []"
  shows "\<exists>tbl'. generate_ratings users products draws tbl = Inr tbl' \<and>
           unique_pairs tbl' \<and>
           take (length tbl) tbl' = tbl \<and>
           (\<forall>r \<in> set tbl'. r \<in> set tbl \<or> in_scale r)"
proof -
  from ratings_data_in_scale [OF assms(2,3)] obtain rows where
    r: "ratings_data users products draws = Inr rows" "\<forall>r \<in> set rows. in_scale r"
    by blast
  from executemany_ignore [OF assms(1)] obtain tbl' where
    t: "executemany OrIgnore rows tbl = Inr tbl'" "unique_pairs tbl'"
       "take (length tbl) tbl' = tbl" "set tbl' \<subseteq> set tbl \<union> set rows"
    by blast
  have "\<forall>r \<in> set tbl'. r \<in> set tbl \<or> in_scale r"
    using r(2) t(4) by blast
  with r(1) t show ?thesis
    by (simp add: generate_ratings_def)
qed

theorem generate_ratings_unique_pairs_witness:
  "unique_pairs [row0] \<and> users0 \<noteq> [] \<and> products0 \<noteq> [] \<and>
   (\<exists>tbl'. generate_ratings users0 products0 [draw0] [row0] = Inr tbl' \<and>
      unique_pairs tbl' \<and> take (length [row0]) tbl' = [row0] \<and>
      (\<forall>r \<in> set tbl'. r \<in> set [row0] \<or> in_scale r))"
proof -
  have u: "unique_pairs [row0]" by simp
  have n: "users0 \<noteq> []" by (simp add: users0_def)
  have p: "products0 \<noteq> []" by (simp add: products0_def)
  from generate_ratings_unique_pairs [OF u n p, of "[draw0]"] u n p
  show ?thesis by blast
qed

text \<open>
  C8, as the specification has it, fails on the code. The run below draws the same
  user and product twice, each time with the raw rating 0.5, outside the scale. It
  ends without an error: the rating is stored as 1, and the second tuple is dropped.
\<close>

theorem generate_ratings_duplicate_not_rejected:
  "generate_ratings users0 products0 [draw0, draw0] [] = Inr [row0]"
  by code_simp

end
